theory Spec2Isabelle
  imports Complex_Main
begin

section \<open>Strings\<close>

text \<open>
  A JavaScript string is modelled as a \<^typ>\<open>string\<close>, one \<^typ>\<open>char\<close> per code
  unit; only code units below 256 are representable. The string methods the
  extension calls are written out with the semantics of ECMAScript.
\<close>

text \<open>\<^verbatim>\<open>s.startsWith(p)\<close> is \<^term>\<open>prefix\<close>-like; written out on lists.\<close>

fun startsWith :: "string \<Rightarrow> string \<Rightarrow> bool" where
  "startsWith s [] = True"
| "startsWith [] (p # ps) = False"
| "startsWith (c # cs) (p # ps) = (c = p \<and> startsWith cs ps)"

text \<open>\<^verbatim>\<open>s.indexOf(c)\<close> for a one-character needle; \<open>None\<close> stands for \<open>-1\<close>.\<close>

fun indexOf :: "string \<Rightarrow> char \<Rightarrow> nat option" where
  "indexOf [] x = None"
| "indexOf (c # cs) x =
     (if c = x then Some 0 else (case indexOf cs x of None \<Rightarrow> None | Some i \<Rightarrow> Some (Suc i)))"

text \<open>\<^verbatim>\<open>s.slice(a, b)\<close> and \<^verbatim>\<open>s.slice(a)\<close> for indices within the string.\<close>

definition slice :: "string \<Rightarrow> nat \<Rightarrow> nat \<Rightarrow> string" where
  "slice s a b = take (b - a) (drop a s)"

definition sliceFrom :: "string \<Rightarrow> nat \<Rightarrow> string" where
  "sliceFrom s a = drop a s"

text \<open>
  \<^verbatim>\<open>s.split(sep)\<close> for a one-character separator: the result always has at least
  one element, and the empty string splits into one empty segment.
\<close>

fun js_split :: "char \<Rightarrow> string \<Rightarrow> string list" where
  "js_split sep [] = [[]]"
| "js_split sep (c # cs) =
     (if c = sep then [] # js_split sep cs
      else (case js_split sep cs of [] \<Rightarrow> [[c]] | w # ws \<Rightarrow> (c # w) # ws))"

text \<open>
  \<^verbatim>\<open>s.replace(/ab/g, r)\<close> for a two-character literal pattern: the occurrences are
  replaced from left to right, without overlap, and the replacement is not scanned
  again.
\<close>

fun replaceAll2 :: "char \<Rightarrow> char \<Rightarrow> char \<Rightarrow> string \<Rightarrow> string" where
  "replaceAll2 a b r (x # y # cs) =
     (if x = a \<and> y = b then r # replaceAll2 a b r cs else x # replaceAll2 a b r (y # cs))"
| "replaceAll2 a b r cs = cs"

text \<open>
  The white space that \<^verbatim>\<open>trim()\<close> removes, among the code units below 256: tab, line
  feed, vertical tab, form feed, carriage return, space and no-break space.
\<close>

definition isWhiteSpace :: "char \<Rightarrow> bool" where
  "isWhiteSpace c = (of_char c \<in> {9, 10, 11, 12, 13, 32, 160 :: nat})"

definition trim :: "string \<Rightarrow> string" where
  "trim s = rev (dropWhile isWhiteSpace (rev (dropWhile isWhiteSpace s)))"

text \<open>The class \<^verbatim>\<open>\d\<close> of a regular expression without the unicode flag.\<close>

definition isDigit :: "char \<Rightarrow> bool" where
  "isDigit c = (48 \<le> (of_char c :: nat) \<and> (of_char c :: nat) \<le> 57)"

text \<open>\<^verbatim>\<open>/^\d+$/.test(s)\<close>: a non-empty string of decimal digits.\<close>

definition allDigits :: "string \<Rightarrow> bool" where
  "allDigits s = (s \<noteq> [] \<and> list_all isDigit s)"

text \<open>
  \<^verbatim>\<open>Number(s)\<close> on a string of decimal digits. The model is the exact natural
  number; the JavaScript double agrees with it below \<open>2 ^ 53\<close>.
\<close>

definition digitsToNumber :: "string \<Rightarrow> nat" where
  "digitsToNumber s = foldl (\<lambda>n c. 10 * n + (of_char c - 48)) 0 s"

section \<open>The pointer codec\<close>

text \<open>A pointer segment, \<^verbatim>\<open>string | number\<close> in the source.\<close>

datatype segment = SegString string | SegNumber nat

text \<open>
  \<^verbatim>\<open>parseJsonPointer\<close> (the free function and the method of the provider have the
  same body).
\<close>

definition parseJsonPointer :: "string \<Rightarrow> segment list" where
  "parseJsonPointer pointer =
     (if pointer = [] then []
      else
        let normalized = (if startsWith pointer ''/'' then sliceFrom pointer 1 else pointer)
        in if normalized = [] then []
           else map (\<lambda>segment.
                  let unescaped = replaceAll2 CHR ''~'' CHR ''0'' CHR ''~''
                                    (replaceAll2 CHR ''~'' CHR ''1'' CHR ''/'' segment)
                  in if allDigits unescaped then SegNumber (digitsToNumber unescaped)
                     else SegString unescaped)
                (js_split CHR ''/'' normalized))"






section \<open>The data of the extension\<close>

text \<open>
  The value of a syntax node, \<^verbatim>\<open>any\<close> in the declaration of the parser: absent on
  objects, arrays and properties, a string, number, boolean or \<^verbatim>\<open>null\<close> on the
  leaves.
\<close>

datatype jsvalue = VUndefined | VNull | VBoolean bool | VNumber real | VString string

datatype NodeType = TObject | TArray | TProperty | TString | TNumber | TBoolean | TNull

text \<open>
  A node of the tree of \<^verbatim>\<open>jsonc-parser\<close>: \<^verbatim>\<open>type\<close>, \<^verbatim>\<open>value\<close>, \<^verbatim>\<open>offset\<close>,
  \<^verbatim>\<open>length\<close>, \<^verbatim>\<open>children\<close>. An absent \<^verbatim>\<open>children\<close> is the empty list: the source
  reads the field only through \<^verbatim>\<open>?.\<close>, \<^verbatim>\<open>?? []\<close> or a test for truth followed by a
  loop, which do not tell the two apart. The \<^verbatim>\<open>parent\<close> field is not stored in the
  tree; the one function that reads it, \<^verbatim>\<open>findNodeAtOffset\<close>'s caller, gets the
  parent together with the node.
\<close>

datatype JsonNode =
  Node (node_type: NodeType) (node_value: jsvalue) (node_offset: nat) (node_length: nat)
    (children: "JsonNode list")

text \<open>\<^verbatim>\<open>xs?.[i]\<close>: the element, or \<^verbatim>\<open>undefined\<close> out of range.\<close>

definition nth_opt :: "'a list \<Rightarrow> nat \<Rightarrow> 'a option" where
  "nth_opt xs i = (if i < length xs then Some (xs ! i) else None)"

text \<open>
  \<^verbatim>\<open>String(v ?? '')\<close>. How a number prints is left to the parameter \<open>num\<close>; the
  source converts only the value of nodes of type string.
\<close>

fun stringOf :: "(real \<Rightarrow> string) \<Rightarrow> jsvalue \<Rightarrow> string" where
  "stringOf num VUndefined = []"
| "stringOf num VNull = []"
| "stringOf num (VBoolean b) = (if b then ''true'' else ''false'')"
| "stringOf num (VNumber r) = num r"
| "stringOf num (VString s) = s"

text \<open>\<^verbatim>\<open>xs.join(sep)\<close>.\<close>

fun join :: "string \<Rightarrow> string list \<Rightarrow> string" where
  "join sep [] = []"
| "join sep [x] = x"
| "join sep (x # y # ys) = x @ sep @ join sep (y # ys)"

record Uri =
  scheme :: string
  authority :: string
  path :: string

record Position =
  line :: nat
  character :: nat

type_synonym Range = "Position \<times> Position"

text \<open>
  A \<^verbatim>\<open>vscode.TextDocument\<close>, with the members the extension reads. Its methods are
  fields that hold functions.
\<close>

record TextDocument =
  uri :: Uri
  getText :: string
  positionAt :: "nat \<Rightarrow> Position"
  offsetAt :: "Position \<Rightarrow> nat"

datatype DiagnosticSeverity = Error | Warning | Information | Hint

record Diagnostic =
  diag_range :: Range
  message :: string
  severity :: DiagnosticSeverity

record SchemaMetadata =
  title :: "string option"
  description :: "string option"
  type_m :: "string option"

text \<open>
  What \<^verbatim>\<open>resolveTargetDocument\<close> returns. The fields carry the prefix \<open>rt_\<close>, and
  those of \<^verbatim>\<open>ResolvedReference\<close> the prefix \<open>rr_\<close>, to leave the names of the
  source to the variables of the functions.
\<close>

record ResolvedTarget =
  rt_targetUri :: Uri
  rt_targetDocument :: TextDocument
  rt_targetRange :: Range
  rt_metadata :: SchemaMetadata
  rt_pointerDisplay :: string
  rt_pointerFragment :: "string option"

text \<open>
  \<^verbatim>\<open>ResolvedReference\<close>: the two fields that \<^verbatim>\<open>resolveReference\<close> adds and the
  fields of the resolved target, which the source spreads into the object.
\<close>

record ResolvedReference =
  rr_refValue :: string
  rr_sourceRange :: Range
  rr_resolved :: ResolvedTarget

text \<open>
  What the extension imports and calls: the parser and the two searches of
  \<^verbatim>\<open>jsonc-parser\<close>, \<^verbatim>\<open>vscode.workspace.openTextDocument\<close> (\<open>None\<close> when the
  promise is rejected), \<^verbatim>\<open>vscode.Uri.parse\<close>, \<^verbatim>\<open>vscode.Uri.file\<close> and
  \<^verbatim>\<open>Uri.fsPath\<close>, the three functions of Node's \<^verbatim>\<open>path\<close>, and the printing of a
  number. They are parameters of the model. \<^verbatim>\<open>findNodeAtOffset\<close> returns the node
  with its parent. Only \<^verbatim>\<open>openTextDocument\<close> is called under a \<^verbatim>\<open>try\<close>, and only
  it has a failure in the model; the other calls return a value, as their declared
  types say.
\<close>

record Host =
  parseTree :: "string \<Rightarrow> JsonNode option"
  findNodeAtLocation :: "JsonNode \<Rightarrow> segment list \<Rightarrow> JsonNode option"
  findNodeAtOffset :: "JsonNode \<Rightarrow> nat \<Rightarrow> bool \<Rightarrow> (JsonNode \<times> JsonNode option) option"
  openTextDocument :: "Uri \<Rightarrow> TextDocument option"
  Uri_parse :: "string \<Rightarrow> Uri"
  Uri_file :: "string \<Rightarrow> Uri"
  fsPath :: "Uri \<Rightarrow> string"
  isAbsolute :: "string \<Rightarrow> bool"
  dirname :: "string \<Rightarrow> string"
  resolve :: "string \<Rightarrow> string \<Rightarrow> string"
  numberToString :: "real \<Rightarrow> string"

section \<open>The reference locator\<close>

definition isAsciiLetter :: "char \<Rightarrow> bool" where
  "isAsciiLetter c =
     ((65 \<le> (of_char c :: nat) \<and> (of_char c :: nat) \<le> 90)
      \<or> (97 \<le> (of_char c :: nat) \<and> (of_char c :: nat) \<le> 122))"

text \<open>The class \<^verbatim>\<open>[a-zA-Z+\-.]\<close>.\<close>

definition isSchemeChar :: "char \<Rightarrow> bool" where
  "isSchemeChar c = (isAsciiLetter c \<or> c = CHR ''+'' \<or> c = CHR ''-'' \<or> c = CHR ''.'')"

text \<open>
  \<^verbatim>\<open>/^[a-zA-Z][a-zA-Z+\-.]*:\/\//.test(s)\<close>. The colon is not in the class, so the
  starred class matches exactly the longest run of its characters.
\<close>

definition matchesUriScheme :: "string \<Rightarrow> bool" where
  "matchesUriScheme s =
     (case s of
        [] \<Rightarrow> False
      | c # cs \<Rightarrow> isAsciiLetter c \<and> startsWith (dropWhile isSchemeChar cs) ''://'')"

text \<open>\<^verbatim>\<open>/^[a-zA-Z]:[\\/]/.test(s)\<close>; the backslash is the character \<open>0x5C\<close>.\<close>

definition matchesWindowsDrive :: "string \<Rightarrow> bool" where
  "matchesWindowsDrive s =
     (case s of
        c # d # e # _ \<Rightarrow> isAsciiLetter c \<and> d = CHR '':'' \<and> (e = CHR 0x5C \<or> e = CHR ''/'')
      | _ \<Rightarrow> False)"

text \<open>
  \<^verbatim>\<open>resolveUri\<close> (the free function and the method have the same body); \<open>None\<close> is
  \<^verbatim>\<open>undefined\<close>.
\<close>

definition resolveUri :: "Host \<Rightarrow> TextDocument \<Rightarrow> string \<Rightarrow> Uri option" where
  "resolveUri h document filePart =
     (if filePart = [] then Some (uri document)
      else if matchesUriScheme filePart then
        (let parsed = Uri_parse h filePart
         in if scheme parsed = ''file'' then Some parsed else None)
      else if isAbsolute h filePart then Some (Uri_file h filePart)
      else if matchesWindowsDrive filePart then Some (Uri_file h filePart)
      else
        (let baseDir = dirname h (fsPath h (uri document))
         in Some (Uri_file h (resolve h baseDir filePart))))"

text \<open>
  The first lines of \<^verbatim>\<open>validateReference\<close> and of \<^verbatim>\<open>resolveTargetDocument\<close>: the
  reference is trimmed and cut at its first \<open>#\<close>.
\<close>

definition filePartOf :: "string \<Rightarrow> string" where
  "filePartOf reference =
     (let trimmed = trim reference
      in case indexOf trimmed CHR ''#'' of
           Some hashIndex \<Rightarrow> slice trimmed 0 hashIndex
         | None \<Rightarrow> trimmed)"

definition pointerPartOf :: "string \<Rightarrow> string" where
  "pointerPartOf reference =
     (let trimmed = trim reference
      in case indexOf trimmed CHR ''#'' of
           Some hashIndex \<Rightarrow> sliceFrom trimmed (hashIndex + 1)
         | None \<Rightarrow> [])"

section \<open>The tree navigator\<close>

text \<open>\<^verbatim>\<open>findTargetNode\<close> (the free function and the method have the same body).\<close>

definition findTargetNode :: "Host \<Rightarrow> TextDocument \<Rightarrow> segment list \<Rightarrow> JsonNode option" where
  "findTargetNode h document pointerSegments =
     (case parseTree h (getText document) of
        None \<Rightarrow> None
      | Some rootNode \<Rightarrow>
          if pointerSegments = [] then Some rootNode
          else
            (case findNodeAtLocation h rootNode pointerSegments of
               None \<Rightarrow> None
             | Some located \<Rightarrow>
                 if node_type located = TProperty \<and> nth_opt (children located) 1 \<noteq> None
                 then nth_opt (children located) 1
                 else Some located))"

section \<open>The metadata extractor\<close>

text \<open>One turn of the loop of \<^verbatim>\<open>extractSchemaMetadata\<close> over the children.\<close>

definition metadataStep :: "(real \<Rightarrow> string) \<Rightarrow> SchemaMetadata \<Rightarrow> JsonNode \<Rightarrow> SchemaMetadata" where
  "metadataStep num md property =
     (if node_type property \<noteq> TProperty \<or> nth_opt (children property) 0 = None then md
      else
        (case nth_opt (children property) 1 of
           None \<Rightarrow> md
         | Some valueNode \<Rightarrow>
             let keyValue = node_value (children property ! 0) in
             if keyValue = VString ''title'' then
               (if node_type valueNode = TString
                then md\<lparr>title := Some (stringOf num (node_value valueNode))\<rparr>
                else md)
             else if keyValue = VString ''description'' then
               (if node_type valueNode = TString
                then md\<lparr>description := Some (stringOf num (node_value valueNode))\<rparr>
                else md)
             else if keyValue = VString ''type'' then
               (if node_type valueNode = TString
                then md\<lparr>type_m := Some (stringOf num (node_value valueNode))\<rparr>
                else if node_type valueNode = TArray then
                  (let types = map (\<lambda>child. stringOf num (node_value child))
                                 (filter (\<lambda>child. node_type child = TString) (children valueNode))
                   in if types \<noteq> [] then md\<lparr>type_m := Some (join '' | '' types)\<rparr>
                      else md)
                else md)
             else md))"

definition emptyMetadata :: SchemaMetadata where
  "emptyMetadata = \<lparr>title = None, description = None, type_m = None\<rparr>"

definition extractSchemaMetadata :: "Host \<Rightarrow> JsonNode \<Rightarrow> SchemaMetadata" where
  "extractSchemaMetadata h targetNode =
     (if node_type targetNode \<noteq> TObject then emptyMetadata
      else foldl (metadataStep (numberToString h)) emptyMetadata (children targetNode))"

section \<open>The reference scanner\<close>

definition rangeOf :: "TextDocument \<Rightarrow> JsonNode \<Rightarrow> Range" where
  "rangeOf document node =
     (positionAt document (node_offset node),
      positionAt document (node_offset node + node_length node))"

text \<open>A text between double quotes (the character \<open>0x22\<close>).\<close>

definition quoted :: "string \<Rightarrow> string" where
  "quoted s = CHR 0x22 # s @ [CHR 0x22]"

definition errorAt :: "TextDocument \<Rightarrow> JsonNode \<Rightarrow> string \<Rightarrow> Diagnostic" where
  "errorAt document node msg =
     \<lparr>diag_range = rangeOf document node, message = msg, severity = Error\<rparr>"

text \<open>
  \<^verbatim>\<open>validateReference\<close>: the list of diagnostics is passed in and returned with at
  most one diagnostic pushed at its end. The \<^verbatim>\<open>try\<close> around
  \<^verbatim>\<open>openTextDocument\<close> is the case on its result.
\<close>

definition validateReference ::
  "Host \<Rightarrow> TextDocument \<Rightarrow> JsonNode \<Rightarrow> string \<Rightarrow> Diagnostic list \<Rightarrow> Diagnostic list" where
  "validateReference h document node reference diagnostics =
     (let filePart = filePartOf reference; pointerPart = pointerPartOf reference in
      case resolveUri h document filePart of
        None \<Rightarrow>
          diagnostics @
            [errorAt document node (''Cannot resolve reference: '' @ quoted reference)]
      | Some targetUri \<Rightarrow>
          (case openTextDocument h targetUri of
             None \<Rightarrow>
               diagnostics @
                 [errorAt document node
                    (''File not found: ''
                      @ quoted (if filePart \<noteq> [] then filePart else ''current file''))]
           | Some targetDocument \<Rightarrow>
               if pointerPart \<noteq> [] then
                 (case findTargetNode h targetDocument (parseJsonPointer pointerPart) of
                    None \<Rightarrow>
                      diagnostics @
                        [errorAt document node
                           (''Invalid JSON pointer: '' @ quoted (CHR ''#'' # pointerPart))]
                  | Some targetNode \<Rightarrow> diagnostics)
               else diagnostics))"

text \<open>
  The first half of the body of \<^verbatim>\<open>findAllRefs\<close>, under the comment
  \<^verbatim>\<open>Check if this is a $ref property\<close>.
\<close>

definition checkRefProperty ::
  "Host \<Rightarrow> TextDocument \<Rightarrow> JsonNode \<Rightarrow> Diagnostic list \<Rightarrow> Diagnostic list" where
  "checkRefProperty h document node diagnostics =
     (if node_type node = TProperty
         \<and> map_option node_value (nth_opt (children node) 0) = Some (VString ''$ref'') then
        (case nth_opt (children node) 1 of
           None \<Rightarrow> diagnostics
         | Some valueNode \<Rightarrow>
             if node_type valueNode = TString then
               (let refValue = stringOf (numberToString h) (node_value valueNode)
                in if trim refValue \<noteq> []
                   then validateReference h document valueNode refValue diagnostics
                   else diagnostics)
             else diagnostics)
      else diagnostics)"

text \<open>
  \<^verbatim>\<open>findAllRefs\<close>: the node is checked, then its children are visited in order,
  each with the diagnostics the ones before it have left. A node of the tree is
  never \<^verbatim>\<open>undefined\<close>, so the first test of the source has no branch here.
\<close>

fun findAllRefs ::
  "Host \<Rightarrow> TextDocument \<Rightarrow> JsonNode \<Rightarrow> Diagnostic list \<Rightarrow> Diagnostic list" where
  "findAllRefs h document (Node t v off len cs) diagnostics =
     fold (findAllRefs h document) cs
       (checkRefProperty h document (Node t v off len cs) diagnostics)"

text \<open>
  The diagnostic collection of the editor maps the identity of a document to its
  list of diagnostics; \<^verbatim>\<open>set\<close> replaces the list.
\<close>

type_synonym DiagnosticCollection = "Uri \<Rightarrow> Diagnostic list option"

definition validateDocument ::
  "Host \<Rightarrow> TextDocument \<Rightarrow> DiagnosticCollection \<Rightarrow> DiagnosticCollection" where
  "validateDocument h document diagnosticCollection =
     (case parseTree h (getText document) of
        None \<Rightarrow> diagnosticCollection(uri document \<mapsto> [])
      | Some rootNode \<Rightarrow> diagnosticCollection(uri document \<mapsto> findAllRefs h document rootNode []))"

section \<open>The reference lookup service\<close>

definition getRefNodeAtPosition :: "Host \<Rightarrow> TextDocument \<Rightarrow> Position \<Rightarrow> JsonNode option" where
  "getRefNodeAtPosition h document position =
     (case parseTree h (getText document) of
        None \<Rightarrow> None
      | Some rootNode \<Rightarrow>
          (case findNodeAtOffset h rootNode (offsetAt document position) True of
             None \<Rightarrow> None
           | Some (node, parent) \<Rightarrow>
               if node_type node \<noteq> TString then None
               else
                 (case parent of
                    None \<Rightarrow> None
                  | Some propertyNode \<Rightarrow>
                      if node_type propertyNode \<noteq> TProperty then None
                      else
                        (case nth_opt (children propertyNode) 0 of
                           None \<Rightarrow> None
                         | Some keyNode \<Rightarrow>
                             if node_value keyNode \<noteq> VString ''$ref'' then None
                             else Some node))))"

definition resolveTargetDocument :: "Host \<Rightarrow> TextDocument \<Rightarrow> string \<Rightarrow> ResolvedTarget option" where
  "resolveTargetDocument h document reference =
     (let filePart = filePartOf reference;
          pointerPart = pointerPartOf reference;
          pointerDisplay = (if pointerPart \<noteq> [] then CHR ''#'' # pointerPart else [])
      in case resolveUri h document filePart of
           None \<Rightarrow> None
         | Some targetUri \<Rightarrow>
             (case openTextDocument h targetUri of
                None \<Rightarrow> None
              | Some targetDocument \<Rightarrow>
                  (case findTargetNode h targetDocument (parseJsonPointer pointerPart) of
                     None \<Rightarrow> None
                   | Some targetNode \<Rightarrow>
                       Some \<lparr>rt_targetUri = targetUri,
                             rt_targetDocument = targetDocument,
                             rt_targetRange = rangeOf targetDocument targetNode,
                             rt_metadata = extractSchemaMetadata h targetNode,
                             rt_pointerDisplay = pointerDisplay,
                             rt_pointerFragment =
                               (if pointerPart \<noteq> [] then Some pointerPart else None)\<rparr>)))"

definition resolveReference :: "Host \<Rightarrow> TextDocument \<Rightarrow> Position \<Rightarrow> ResolvedReference option" where
  "resolveReference h document position =
     (case getRefNodeAtPosition h document position of
        None \<Rightarrow> None
      | Some node \<Rightarrow>
          let refValue = stringOf (numberToString h) (node_value node) in
          if trim refValue = [] then None
          else
            (case resolveTargetDocument h document refValue of
               None \<Rightarrow> None
             | Some resolvedTarget \<Rightarrow>
                 Some \<lparr>rr_refValue = refValue,
                       rr_sourceRange = rangeOf document node,
                       rr_resolved = resolvedTarget\<rparr>))"

section \<open>A reference host\<close>

text \<open>
  The general theorems hold for every host. The examples of the specification need
  one: the functions below stand for the libraries on a POSIX machine.
\<close>

subsection \<open>The searches of the parser library\<close>

text \<open>
  Modelled from the spec: \<^verbatim>\<open>findNodeAtLocation\<close> of \<^verbatim>\<open>jsonc-parser\<close> is not under
  the sources. Section 4.3: descend one segment at a time; in an object a string
  segment selects the property whose key equals the segment and descends into its
  value node; in an array an integer segment selects the child at that index; a
  segment that does not resolve gives nothing.
\<close>

fun findProperty :: "JsonNode list \<Rightarrow> string \<Rightarrow> JsonNode option" where
  "findProperty [] k = None"
| "findProperty (p # ps) k =
     (if map_option node_value (nth_opt (children p) 0) = Some (VString k)
         \<and> nth_opt (children p) 1 \<noteq> None
      then nth_opt (children p) 1
      else findProperty ps k)"

fun findNodeAtLocation_spec :: "JsonNode \<Rightarrow> segment list \<Rightarrow> JsonNode option" where
  "findNodeAtLocation_spec node [] = Some node"
| "findNodeAtLocation_spec node (SegString k # rest) =
     (if node_type node \<noteq> TObject then None
      else
        (case findProperty (children node) k of
           None \<Rightarrow> None
         | Some v \<Rightarrow> findNodeAtLocation_spec v rest))"
| "findNodeAtLocation_spec node (SegNumber i # rest) =
     (if node_type node \<noteq> TArray \<or> length (children node) \<le> i then None
      else findNodeAtLocation_spec (children node ! i) rest)"

text \<open>
  Modelled from the spec: \<^verbatim>\<open>findNodeAtOffset\<close> of \<^verbatim>\<open>jsonc-parser\<close> is not under
  the sources. Section 4.6, step 1: the innermost node covering the offset, the
  right bound included. The children are tried in order as long as they start at or
  before the offset. The result carries the parent of the node found. The examples
  look up offsets strictly inside a node, where no two siblings cover the offset.
\<close>

definition containsOffset :: "JsonNode \<Rightarrow> nat \<Rightarrow> bool \<Rightarrow> bool" where
  "containsOffset node off includeRightBound =
     ((node_offset node \<le> off \<and> off < node_offset node + node_length node)
      \<or> (includeRightBound \<and> off = node_offset node + node_length node))"

fun findNodeAtOffset_from :: "JsonNode option \<Rightarrow> JsonNode \<Rightarrow> nat \<Rightarrow> bool \<Rightarrow> (JsonNode \<times> JsonNode option) option"
  and findNodeAtOffset_in :: "JsonNode \<Rightarrow> JsonNode list \<Rightarrow> nat \<Rightarrow> bool \<Rightarrow> (JsonNode \<times> JsonNode option) option" where
  "findNodeAtOffset_from parent (Node t v off len cs) offset includeRightBound =
     (if containsOffset (Node t v off len cs) offset includeRightBound then
        (case findNodeAtOffset_in (Node t v off len cs) cs offset includeRightBound of
           Some item \<Rightarrow> Some item
         | None \<Rightarrow> Some (Node t v off len cs, parent))
      else None)"
| "findNodeAtOffset_in parent [] offset includeRightBound = None"
| "findNodeAtOffset_in parent (c # cs) offset includeRightBound =
     (if node_offset c \<le> offset then
        (case findNodeAtOffset_from (Some parent) c offset includeRightBound of
           Some item \<Rightarrow> Some item
         | None \<Rightarrow> findNodeAtOffset_in parent cs offset includeRightBound)
      else None)"

definition findNodeAtOffset_spec :: "JsonNode \<Rightarrow> nat \<Rightarrow> bool \<Rightarrow> (JsonNode \<times> JsonNode option) option" where
  "findNodeAtOffset_spec rootNode offset includeRightBound =
     findNodeAtOffset_from None rootNode offset includeRightBound"

subsection \<open>Paths and identities on a POSIX machine\<close>

text \<open>
  Modelled from the spec: Node's \<^verbatim>\<open>path\<close> module is not under the sources. Section
  4.2: a path in POSIX form is absolute when it starts with a slash; a relative
  path is resolved against the directory of the base document.
\<close>

definition posix_isAbsolute :: "string \<Rightarrow> bool" where
  "posix_isAbsolute p = startsWith p ''/''"

text \<open>
  The directory of a path: what stands before the last slash that is followed by a
  name; the slash itself for a name directly under the root, a dot for a bare name.
\<close>

definition posix_dirname :: "string \<Rightarrow> string" where
  "posix_dirname p =
     (if p = [] then ''.''
      else
        let hasRoot = startsWith p ''/'';
            afterName = dropWhile (\<lambda>c. c \<noteq> CHR ''/'')
                          (dropWhile (\<lambda>c. c = CHR ''/'') (rev (tl p)))
        in if afterName = [] then (if hasRoot then ''/'' else ''.'')
           else if hasRoot \<and> length afterName = 1 then ''//''
           else take (length afterName) p)"

text \<open>
  The segments of a path, with empty segments and single dots dropped and a double
  dot removing the segment before it (at the root it removes nothing).
\<close>

fun normalizeSegments :: "string list \<Rightarrow> string list \<Rightarrow> string list" where
  "normalizeSegments acc [] = rev acc"
| "normalizeSegments acc (s # ss) =
     (if s = [] \<or> s = ''.'' then normalizeSegments acc ss
      else if s = ''..'' then normalizeSegments (tl acc) ss
      else normalizeSegments (s # acc) ss)"

text \<open>\<^verbatim>\<open>path.resolve(a, b)\<close> in a process whose working directory is \<open>cwd\<close>.\<close>

definition posix_resolve :: "string \<Rightarrow> string \<Rightarrow> string \<Rightarrow> string" where
  "posix_resolve cwd a b =
     (let joined =
        (if posix_isAbsolute b then b
         else if posix_isAbsolute a then a @ ''/'' @ b
         else cwd @ ''/'' @ a @ ''/'' @ b)
      in CHR ''/'' # join ''/'' (normalizeSegments [] (js_split CHR ''/'' joined)))"

text \<open>
  Modelled from the spec: \<^verbatim>\<open>vscode.Uri\<close> is not under the sources. Section 4.2: the
  identity of a file is its absolute path; a text of the form \<open>scheme://...\<close> is
  parsed as a URI, whose scheme is what stands before the colon.
\<close>

definition file_Uri :: "string \<Rightarrow> Uri" where
  "file_Uri p = \<lparr>scheme = ''file'', authority = [], path = p\<rparr>"

definition parse_Uri :: "string \<Rightarrow> Uri" where
  "parse_Uri s =
     (let rest = drop 3 (dropWhile (\<lambda>c. c \<noteq> CHR '':'') s)
      in \<lparr>scheme = takeWhile (\<lambda>c. c \<noteq> CHR '':'') s,
          authority = takeWhile (\<lambda>c. c \<noteq> CHR ''/'') rest,
          path = dropWhile (\<lambda>c. c \<noteq> CHR ''/'') rest\<rparr>)"

text \<open>A document of one line: a position is an offset into the line.\<close>

definition oneLineDocument :: "Uri \<Rightarrow> string \<Rightarrow> TextDocument" where
  "oneLineDocument u text =
     \<lparr>uri = u, getText = text,
      positionAt = (\<lambda>off. \<lparr>line = 0, character = min off (length text)\<rparr>),
      offsetAt = (\<lambda>p. if line p = 0 then min (character p) (length text) else length text)\<rparr>"

text \<open>
  A POSIX host over a workspace: \<open>files\<close> lists the identities that load, each with
  its document, and \<open>trees\<close> lists the texts that parse, each with its syntax tree.
  A number prints as \<open>num\<close> says.
\<close>

definition posixHost ::
  "(Uri \<times> TextDocument) list \<Rightarrow> (string \<times> JsonNode) list \<Rightarrow> (real \<Rightarrow> string) \<Rightarrow> Host" where
  "posixHost files trees num =
     \<lparr>parseTree = map_of trees,
      findNodeAtLocation = findNodeAtLocation_spec,
      findNodeAtOffset = findNodeAtOffset_spec,
      openTextDocument = map_of files,
      Uri_parse = parse_Uri,
      Uri_file = file_Uri,
      fsPath = path,
      isAbsolute = posix_isAbsolute,
      dirname = posix_dirname,
      resolve = posix_resolve ''/'',
      numberToString = num\<rparr>"

subsection \<open>An example workspace\<close>

text \<open>
  Three files in \<^verbatim>\<open>/work\<close>. The first holds four references: to a remote schema,
  to a missing file, to a pointer that its own root does not have, and to a
  definition of the second file. The trees are the ones the parser builds for the
  texts, each node with its offset and length.
\<close>

definition textA :: string where
  \<open>textA = ''{"a":{"$ref":" http://example.com/s.json "},"b":{"$ref":"./missing.json"},"c":{"$ref":"#/nope"},"d":{"$ref":"b.json#/defs/Foo"}}''\<close>

definition treeA :: JsonNode where
  "treeA =
     Node TObject VUndefined 0 128
       [Node TProperty VUndefined 1 42
          [Node TString (VString ''a'') 1 3 [],
           Node TObject VUndefined 5 38
             [Node TProperty VUndefined 6 36
                [Node TString (VString ''$ref'') 6 6 [],
                 Node TString (VString '' http://example.com/s.json '') 13 29 []]]],
        Node TProperty VUndefined 44 29
          [Node TString (VString ''b'') 44 3 [],
           Node TObject VUndefined 48 25
             [Node TProperty VUndefined 49 23
                [Node TString (VString ''$ref'') 49 6 [],
                 Node TString (VString ''./missing.json'') 56 16 []]]],
        Node TProperty VUndefined 74 21
          [Node TString (VString ''c'') 74 3 [],
           Node TObject VUndefined 78 17
             [Node TProperty VUndefined 79 15
                [Node TString (VString ''$ref'') 79 6 [],
                 Node TString (VString ''#/nope'') 86 8 []]]],
        Node TProperty VUndefined 96 31
          [Node TString (VString ''d'') 96 3 [],
           Node TObject VUndefined 100 27
             [Node TProperty VUndefined 101 25
                [Node TString (VString ''$ref'') 101 6 [],
                 Node TString (VString ''b.json#/defs/Foo'') 108 18 []]]]]"

definition textB :: string where
  \<open>textB = ''{"defs":{"Foo":{"title":"Foo","type":["string","null"]}}}''\<close>

definition nodeFoo :: JsonNode where
  "nodeFoo =
     Node TObject VUndefined 15 40
       [Node TProperty VUndefined 16 13
          [Node TString (VString ''title'') 16 7 [],
           Node TString (VString ''Foo'') 24 5 []],
        Node TProperty VUndefined 30 24
          [Node TString (VString ''type'') 30 6 [],
           Node TArray VUndefined 37 17
             [Node TString (VString ''string'') 38 8 [],
              Node TString (VString ''null'') 47 6 []]]]"

definition treeB :: JsonNode where
  "treeB =
     Node TObject VUndefined 0 57
       [Node TProperty VUndefined 1 55
          [Node TString (VString ''defs'') 1 6 [],
           Node TObject VUndefined 8 48
             [Node TProperty VUndefined 9 46
                [Node TString (VString ''Foo'') 9 5 [], nodeFoo]]]]"

definition textC :: string where
  "textC = ''{}''"

definition treeC :: JsonNode where
  "treeC = Node TObject VUndefined 0 2 []"

definition docA :: TextDocument where
  "docA = oneLineDocument (file_Uri ''/work/a.json'') textA"

definition docB :: TextDocument where
  "docB = oneLineDocument (file_Uri ''/work/b.json'') textB"

definition docC :: TextDocument where
  "docC = oneLineDocument (file_Uri ''/work/$ref'') textC"

definition workspace :: Host where
  "workspace =
     posixHost
       [(file_Uri ''/work/a.json'', docA), (file_Uri ''/work/b.json'', docB),
        (file_Uri ''/work/$ref'', docC)]
       [(textA, treeA), (textB, treeB), (textC, treeC)]
       (\<lambda>r. [])"

text \<open>The document of the navigator's example in section 8 of the specification.\<close>

definition textAB :: string where
  \<open>textAB = ''{"a":{"b":[1,2,3]}}''\<close>

definition treeAB :: JsonNode where
  "treeAB =
     Node TObject VUndefined 0 19
       [Node TProperty VUndefined 1 17
          [Node TString (VString ''a'') 1 3 [],
           Node TObject VUndefined 5 13
             [Node TProperty VUndefined 6 11
                [Node TString (VString ''b'') 6 3 [],
                 Node TArray VUndefined 10 7
                   [Node TNumber (VNumber 1) 11 1 [],
                    Node TNumber (VNumber 2) 13 1 [],
                    Node TNumber (VNumber 3) 15 1 []]]]]]"

definition docAB :: TextDocument where
  "docAB = oneLineDocument (file_Uri ''/work/ab.json'') textAB"

section \<open>The operations in the words of the specification\<close>

subsection \<open>Metadata extraction\<close>

text \<open>The last element of a list, if it has one: the duplicate key that wins.\<close>

definition lastOption :: "'a list \<Rightarrow> 'a option" where
  "lastOption xs = (if xs = [] then None else Some (last xs))"

text \<open>A later value, when there is one, replaces the earlier one.\<close>

definition override :: "'a option \<Rightarrow> 'a option \<Rightarrow> 'a option" where
  "override new old = (case new of Some y \<Rightarrow> Some y | None \<Rightarrow> old)"

text \<open>
  What a direct child contributes under the name \<open>k\<close>: the text of its value, when
  the child is a property with the key \<open>k\<close> and a value node of type string.
\<close>

definition stringProperty :: "(real \<Rightarrow> string) \<Rightarrow> string \<Rightarrow> JsonNode \<Rightarrow> string option" where
  "stringProperty num k p =
     (if node_type p = TProperty then
        (case (nth_opt (children p) 0, nth_opt (children p) 1) of
           (Some keyNode, Some valueNode) \<Rightarrow>
             if node_value keyNode = VString k \<and> node_type valueNode = TString
             then Some (stringOf num (node_value valueNode))
             else None
         | _ \<Rightarrow> None)
      else None)"

text \<open>
  What a value node gives as a type: its text when it is a string; when it is an
  array with string elements, those elements joined with a bar; nothing otherwise.
\<close>

definition typeOfValue :: "(real \<Rightarrow> string) \<Rightarrow> JsonNode \<Rightarrow> string option" where
  "typeOfValue num valueNode =
     (if node_type valueNode = TString then Some (stringOf num (node_value valueNode))
      else if node_type valueNode = TArray then
        (case filter (\<lambda>child. node_type child = TString) (children valueNode) of
           [] \<Rightarrow> None
         | elements \<Rightarrow>
             Some (join '' | '' (map (\<lambda>child. stringOf num (node_value child)) elements)))
      else None)"

definition typeProperty :: "(real \<Rightarrow> string) \<Rightarrow> JsonNode \<Rightarrow> string option" where
  "typeProperty num p =
     (if node_type p = TProperty then
        (case (nth_opt (children p) 0, nth_opt (children p) 1) of
           (Some keyNode, Some valueNode) \<Rightarrow>
             if node_value keyNode = VString ''type'' then typeOfValue num valueNode else None
         | _ \<Rightarrow> None)
      else None)"

definition extract_spec :: "Host \<Rightarrow> JsonNode \<Rightarrow> SchemaMetadata" where
  "extract_spec h node =
     (if node_type node = TObject then
        \<lparr>title =
           lastOption (List.map_filter (stringProperty (numberToString h) ''title'') (children node)),
         description =
           lastOption
             (List.map_filter (stringProperty (numberToString h) ''description'') (children node)),
         type_m = lastOption (List.map_filter (typeProperty (numberToString h)) (children node))\<rparr>
      else emptyMetadata)"

subsection \<open>The scan\<close>

text \<open>The nodes of a tree in depth-first pre-order.\<close>

fun preorder :: "JsonNode \<Rightarrow> JsonNode list" where
  "preorder (Node t v off len cs) = Node t v off len cs # concat (map preorder cs)"

text \<open>
  The value node of a reference: the node is a property, its key equals \<open>$ref\<close>, and
  its value node is a string that is not blank.
\<close>

definition referenceValueNode :: "Host \<Rightarrow> JsonNode \<Rightarrow> JsonNode option" where
  "referenceValueNode h n =
     (case (nth_opt (children n) 0, nth_opt (children n) 1) of
        (Some keyNode, Some valueNode) \<Rightarrow>
          if node_type n = TProperty \<and> node_value keyNode = VString ''$ref''
             \<and> node_type valueNode = TString
             \<and> trim (stringOf (numberToString h) (node_value valueNode)) \<noteq> []
          then Some valueNode
          else None
      | _ \<Rightarrow> None)"

text \<open>
  The classification of a raw reference value: the message of its finding, or
  nothing when the reference is in order.
\<close>

definition classify :: "Host \<Rightarrow> TextDocument \<Rightarrow> string \<Rightarrow> string option" where
  "classify h document raw =
     (case resolveUri h document (filePartOf raw) of
        None \<Rightarrow> Some (''Cannot resolve reference: '' @ quoted raw)
      | Some target \<Rightarrow>
          (case openTextDocument h target of
             None \<Rightarrow>
               Some (''File not found: ''
                     @ quoted (if filePartOf raw = [] then ''current file'' else filePartOf raw))
           | Some loaded \<Rightarrow>
               if pointerPartOf raw \<noteq> []
                  \<and> findTargetNode h loaded (parseJsonPointer (pointerPartOf raw)) = None
               then Some (''Invalid JSON pointer: '' @ quoted (CHR ''#'' # pointerPartOf raw))
               else None))"

definition findingsAt :: "Host \<Rightarrow> TextDocument \<Rightarrow> JsonNode \<Rightarrow> Diagnostic list" where
  "findingsAt h document n =
     (case referenceValueNode h n of
        None \<Rightarrow> []
      | Some valueNode \<Rightarrow>
          (case classify h document (stringOf (numberToString h) (node_value valueNode)) of
             None \<Rightarrow> []
           | Some msg \<Rightarrow> [errorAt document valueNode msg]))"

definition scan_spec :: "Host \<Rightarrow> TextDocument \<Rightarrow> Diagnostic list" where
  "scan_spec h document =
     (case parseTree h (getText document) of
        None \<Rightarrow> []
      | Some rootNode \<Rightarrow> concat (map (findingsAt h document) (preorder rootNode)))"

subsection \<open>The lookup\<close>


text \<open>The fields of a resolved reference, without the loaded document.\<close>

definition summary ::
  "ResolvedReference \<Rightarrow> string \<times> Range \<times> Uri \<times> Range \<times> SchemaMetadata \<times> string \<times> string option" where
  "summary r =
     (rr_refValue r, rr_sourceRange r, rt_targetUri (rr_resolved r),
      rt_targetRange (rr_resolved r), rt_metadata (rr_resolved r),
      rt_pointerDisplay (rr_resolved r), rt_pointerFragment (rr_resolved r))"

subsection \<open>What a scan asks of the loader\<close>

text \<open>
  The identities a scan of the document hands to \<^verbatim>\<open>openTextDocument\<close>: the targets
  that the locator gives for the references of the tree, in pre-order.
\<close>

definition referencedUris :: "Host \<Rightarrow> TextDocument \<Rightarrow> Uri list" where
  "referencedUris h document =
     (case parseTree h (getText document) of
        None \<Rightarrow> []
      | Some rootNode \<Rightarrow>
          List.map_filter
            (\<lambda>n. case referenceValueNode h n of
                   None \<Rightarrow> None
                 | Some valueNode \<Rightarrow>
                     resolveUri h document
                       (filePartOf (stringOf (numberToString h) (node_value valueNode))))
            (preorder rootNode))"

section \<open>Properties of the pointer codec\<close>





















section \<open>Properties of the metadata extractor\<close>

lemma lastOption_append:
  "lastOption (xs @ ys) = (case lastOption ys of Some y \<Rightarrow> Some y | None \<Rightarrow> lastOption xs)"
  by (simp add: lastOption_def)

lemma map_filter_snoc:
  "List.map_filter f (xs @ [x]) = List.map_filter f xs @ (case f x of None \<Rightarrow> [] | Some y \<Rightarrow> [y])"
  by (simp add: List.map_filter_def split: option.splits)

text \<open>One turn of the loop sets each field from the property, or leaves it.\<close>

lemma metadataStep_fields:
  "metadataStep num md p =
     \<lparr>title = override (stringProperty num ''title'' p) (title md),
      description = override (stringProperty num ''description'' p) (description md),
      type_m = override (typeProperty num p) (type_m md)\<rparr>"
  by (cases md)
    (auto simp add: metadataStep_def stringProperty_def typeProperty_def typeOfValue_def
      override_def nth_opt_def Let_def filter_empty_conv split: option.splits list.splits)

lemma foldl_metadataStep:
  "foldl (metadataStep num) md ps =
     \<lparr>title = override (lastOption (List.map_filter (stringProperty num ''title'') ps)) (title md),
      description =
        override (lastOption (List.map_filter (stringProperty num ''description'') ps))
          (description md),
      type_m = override (lastOption (List.map_filter (typeProperty num) ps)) (type_m md)\<rparr>"
proof (induction ps rule: rev_induct)
  case Nil
  then show ?case by (simp add: List.map_filter_def lastOption_def override_def)
next
  case (snoc p ps)
  then show ?case
    by (simp add: metadataStep_fields map_filter_snoc lastOption_append override_def
        lastOption_def split: option.splits)
qed

lemma extract_refines: "extractSchemaMetadata h node = extract_spec h node"
  by (simp add: extractSchemaMetadata_def extract_spec_def foldl_metadataStep emptyMetadata_def
      override_def split: option.splits)

section \<open>Properties of the scanner\<close>

lemma validateReference_classify:
  "validateReference h document node raw ds =
     ds @ (case classify h document raw of
             None \<Rightarrow> []
           | Some msg \<Rightarrow> [errorAt document node msg])"
  by (simp add: validateReference_def classify_def Let_def split: option.splits)

lemma fold_appends:
  assumes "\<And>c ds. c \<in> set cs \<Longrightarrow> f c ds = ds @ g c"
  shows "fold f cs ds = ds @ concat (map g cs)"
  using assms by (induction cs arbitrary: ds) simp_all

lemma checkRefProperty_findingsAt:
  "checkRefProperty h document n ds = ds @ findingsAt h document n"
  by (auto simp add: checkRefProperty_def findingsAt_def referenceValueNode_def
      validateReference_classify Let_def nth_opt_def split: option.splits)

lemma concat_map_concat_map:
  "concat (map (\<lambda>c. concat (map f (g c))) cs) = concat (map f (concat (map g cs)))"
  by (induction cs) simp_all

text \<open>
  The traversal with an accumulator appends, to what it is given, the findings of
  the nodes in pre-order.
\<close>

lemma findAllRefs_preorder:
  "findAllRefs h document n ds = ds @ concat (map (findingsAt h document) (preorder n))"
proof (induction n arbitrary: ds)
  case (Node t v off len cs)
  have "fold (findAllRefs h document) cs ds' =
          ds' @ concat (map (\<lambda>c. concat (map (findingsAt h document) (preorder c))) cs)" for ds'
    using Node.IH by (intro fold_appends) simp
  then show ?case
    by (simp add: checkRefProperty_findingsAt concat_map_concat_map)
qed

lemma validateDocument_scan:
  "validateDocument h document coll = coll(uri document \<mapsto> scan_spec h document)"
  by (simp add: validateDocument_def scan_spec_def findAllRefs_preorder split: option.splits)

section \<open>Evaluation in the example workspace\<close>

lemmas workspace_defs = workspace_def posixHost_def docA_def docB_def docC_def
  oneLineDocument_def file_Uri_def parse_Uri_def

lemmas locator_defs = resolveUri_def matchesUriScheme_def matchesWindowsDrive_def
  isAsciiLetter_def isSchemeChar_def posix_isAbsolute_def posix_dirname_def posix_resolve_def
  filePartOf_def pointerPartOf_def trim_def isWhiteSpace_def slice_def sliceFrom_def

lemmas pointer_defs = parseJsonPointer_def allDigits_def isDigit_def digitsToNumber_def

lemma text_distinct:
  "textA \<noteq> textB" "textB \<noteq> textA" "textA \<noteq> textC" "textC \<noteq> textA"
  "textB \<noteq> textC" "textC \<noteq> textB"
  by (simp_all add: textA_def textB_def textC_def)


section \<open>Properties of the locator\<close>





section \<open>Properties of the lookup\<close>





lemmas lookup_defs = resolveReference_def getRefNodeAtPosition_def resolveTargetDocument_def
  findNodeAtOffset_spec_def containsOffset_def findTargetNode_def extractSchemaMetadata_def
  metadataStep_def emptyMetadata_def rangeOf_def nth_opt_def Let_def

lemma text_length: "length textA = 128" "length textB = 57" "length textC = 2"
  by (simp_all add: textA_def textB_def textC_def)



lemma ref_literal:
  "filePartOf ''$ref'' = ''$ref''" "pointerPartOf ''$ref'' = []"
  "\<not> matchesUriScheme ''$ref''" "\<not> matchesWindowsDrive ''$ref''" "trim ''$ref'' = ''$ref''"
  by (simp_all add: locator_defs)

section \<open>The scan and the loader\<close>

text \<open>
  Nothing but the classification reads the loader, and it reads it only at the
  target of the reference.
\<close>

lemma set_map_filter_conv: "set (List.map_filter f xs) = {y. \<exists>x \<in> set xs. f x = Some y}"
  by (induction xs) (auto split: option.splits)

lemma referenceValueNode_load [simp]:
  "referenceValueNode (h\<lparr>openTextDocument := load\<rparr>) n = referenceValueNode h n"
  by (simp add: referenceValueNode_def split: option.splits)

lemma findTargetNode_load [simp]:
  "findTargetNode (h\<lparr>openTextDocument := load\<rparr>) d segs = findTargetNode h d segs"
  by (simp add: findTargetNode_def split: option.splits)

lemma resolveUri_load [simp]:
  "resolveUri (h\<lparr>openTextDocument := load\<rparr>) d fp = resolveUri h d fp"
  by (simp add: resolveUri_def Let_def)

lemma classify_load:
  assumes "\<And>u. resolveUri h d (filePartOf raw) = Some u \<Longrightarrow> load u = openTextDocument h u"
  shows "classify (h\<lparr>openTextDocument := load\<rparr>) d raw = classify h d raw"
  using assms by (simp add: classify_def split: option.splits)

lemma findingsAt_load:
  assumes "\<And>v u. referenceValueNode h n = Some v \<Longrightarrow>
      resolveUri h d (filePartOf (stringOf (numberToString h) (node_value v))) = Some u \<Longrightarrow>
      load u = openTextDocument h u"
  shows "findingsAt (h\<lparr>openTextDocument := load\<rparr>) d n = findingsAt h d n"
proof (cases "referenceValueNode h n")
  case None
  then show ?thesis by (simp add: findingsAt_def)
next
  case (Some v)
  with assms have "classify (h\<lparr>openTextDocument := load\<rparr>) d (stringOf (numberToString h) (node_value v))
      = classify h d (stringOf (numberToString h) (node_value v))"
    by (intro classify_load) simp
  with Some show ?thesis by (simp add: findingsAt_def)
qed

lemma scan_spec_load:
  assumes "\<forall>u \<in> set (referencedUris h d). load u = openTextDocument h u"
  shows "scan_spec (h\<lparr>openTextDocument := load\<rparr>) d = scan_spec h d"
proof (cases "parseTree h (getText d)")
  case None
  then show ?thesis by (simp add: scan_spec_def)
next
  case (Some rootNode)
  have "findingsAt (h\<lparr>openTextDocument := load\<rparr>) d n = findingsAt h d n"
    if n: "n \<in> set (preorder rootNode)" for n
  proof (rule findingsAt_load)
    fix v u
    assume "referenceValueNode h n = Some v"
      and "resolveUri h d (filePartOf (stringOf (numberToString h) (node_value v))) = Some u"
    with n Some have "u \<in> set (referencedUris h d)"
      by (auto simp add: referencedUris_def set_map_filter_conv intro!: bexI [of _ n])
    with assms show "load u = openTextDocument h u" by blast
  qed
  with Some show ?thesis
    by (simp add: scan_spec_def cong: map_cong)
qed

lemma referencedUris_docA:
  "referencedUris workspace docA =
     [file_Uri ''/work/missing.json'', file_Uri ''/work/a.json'', file_Uri ''/work/b.json'']"
  by (simp add: referencedUris_def referenceValueNode_def List.map_filter_def nth_opt_def
      treeA_def workspace_defs locator_defs text_distinct)

section \<open>Claims about the pointer codec\<close>





section \<open>Claims about the locator\<close>





section \<open>Claims about the navigator\<close>

text \<open>
  C4. When the text of the document parses, \<open>findTargetNode\<close> with the empty path
  returns the root. On the tree of the document \<open>{"a":{"b":[1,2,3]}}\<close>, with the
  search of the parser library as section 4.3 describes it, the path \<open>a, b, 1\<close>
  locates the number node of value 2 and the path \<open>a, x\<close> locates nothing. Whenever
  the search returns, for a non-empty path, a property node that has a value child,
  \<open>findTargetNode\<close> returns that value child and not the property. (A property
  node always has its value child in the data model of the specification.)
\<close>

theorem findTargetNode_navigates:
  "(parseTree h (getText document) = Some rootNode \<longrightarrow>
      findTargetNode h document [] = Some rootNode)
   \<and> (parseTree h (getText document) = Some treeAB
        \<and> findNodeAtLocation h = findNodeAtLocation_spec \<longrightarrow>
      findTargetNode h document [SegString ''a'', SegString ''b'', SegNumber 1]
        = Some (Node TNumber (VNumber 2) 13 1 [])
      \<and> findTargetNode h document [SegString ''a'', SegString ''x''] = None)
   \<and> (parseTree h (getText document) = Some rootNode \<and> pointerSegments \<noteq> []
        \<and> findNodeAtLocation h rootNode pointerSegments = Some located
        \<and> node_type located = TProperty
        \<and> nth_opt (children located) 1 = Some valueNode \<longrightarrow>
      findTargetNode h document pointerSegments = Some valueNode)"
  by (simp add: findTargetNode_def treeAB_def nth_opt_def)

theorem findTargetNode_navigates_witness:
  "findTargetNode (workspace\<lparr>parseTree := map_of [(textAB, treeAB)]\<rparr>) docAB [] = Some treeAB
   \<and> findTargetNode (workspace\<lparr>parseTree := map_of [(textAB, treeAB)]\<rparr>) docAB
        [SegString ''a'', SegString ''b'', SegNumber 1] = Some (Node TNumber (VNumber 2) 13 1 [])
   \<and> findTargetNode (workspace\<lparr>parseTree := map_of [(textAB, treeAB)]\<rparr>) docAB
        [SegString ''a'', SegString ''x''] = None
   \<and> findTargetNode
        (workspace\<lparr>parseTree := map_of [(textAB, treeAB)],
                   findNodeAtLocation := (\<lambda>n p. nth_opt (children n) 0)\<rparr>) docAB
        [SegString ''a''] = Some (Node TObject VUndefined 5 13
             [Node TProperty VUndefined 6 11
                [Node TString (VString ''b'') 6 3 [],
                 Node TArray VUndefined 10 7
                   [Node TNumber (VNumber 1) 11 1 [],
                    Node TNumber (VNumber 2) 13 1 [],
                    Node TNumber (VNumber 3) 15 1 []]]])"
  using findTargetNode_navigates [of "workspace\<lparr>parseTree := map_of [(textAB, treeAB)]\<rparr>" docAB treeAB]
    findTargetNode_navigates [of "workspace\<lparr>parseTree := map_of [(textAB, treeAB)],
                   findNodeAtLocation := (\<lambda>n p. nth_opt (children n) 0)\<rparr>" docAB treeAB
      "[SegString ''a'']" "Node TProperty VUndefined 1 17
          [Node TString (VString ''a'') 1 3 [],
           Node TObject VUndefined 5 13
             [Node TProperty VUndefined 6 11
                [Node TString (VString ''b'') 6 3 [],
                 Node TArray VUndefined 10 7
                   [Node TNumber (VNumber 1) 11 1 [],
                    Node TNumber (VNumber 2) 13 1 [],
                    Node TNumber (VNumber 3) 15 1 []]]]]"]
  by (simp add: workspace_defs docAB_def treeAB_def nth_opt_def)

section \<open>Claims about the lookup\<close>



text \<open>
  C10. When the node found at the offset is the key node of a property whose key
  equals \<open>$ref\<close>, the guard of \<open>getRefNodeAtPosition\<close> accepts it: the key is a
  string, its parent is a property, and the key of that property equals \<open>$ref\<close>.
  The lookup then resolves the text \<open>$ref\<close> itself: it has no pointer part, it is
  no URI and no drive path, so on a host for which it is not absolute it is resolved
  against the directory of the document, and the lookup returns a resolved target
  whenever that file loads and parses. In the example workspace, which has a file
  \<open>/work/$ref\<close>, the lookup inside the key of the fourth reference returns that
  file.
\<close>

theorem resolveReference_on_key:
  assumes "parseTree h (getText document) = Some rootNode"
    and "findNodeAtOffset h rootNode (offsetAt document position) True
           = Some (keyNode, Some propertyNode)"
    and "node_type propertyNode = TProperty"
    and "nth_opt (children propertyNode) 0 = Some keyNode"
    and "node_type keyNode = TString"
    and "node_value keyNode = VString ''$ref''"
  shows "getRefNodeAtPosition h document position = Some keyNode
    \<and> filePartOf ''$ref'' = ''$ref'' \<and> pointerPartOf ''$ref'' = []
    \<and> (\<not> isAbsolute h ''$ref'' \<longrightarrow>
          resolveUri h document ''$ref''
            = Some (Uri_file h (resolve h (dirname h (fsPath h (uri document))) ''$ref'')))
    \<and> resolveReference h document position =
        map_option
          (\<lambda>target. \<lparr>rr_refValue = ''$ref'', rr_sourceRange = rangeOf document keyNode,
                      rr_resolved = target\<rparr>)
          (resolveTargetDocument h document ''$ref'')
    \<and> (\<not> isAbsolute h ''$ref''
        \<and> openTextDocument h
             (Uri_file h (resolve h (dirname h (fsPath h (uri document))) ''$ref'')) = Some loaded
        \<and> parseTree h (getText loaded) = Some targetRoot \<longrightarrow>
          map_option rr_resolved (resolveReference h document position) =
            Some \<lparr>rt_targetUri =
                    Uri_file h (resolve h (dirname h (fsPath h (uri document))) ''$ref''),
                  rt_targetDocument = loaded,
                  rt_targetRange = rangeOf loaded targetRoot,
                  rt_metadata = extractSchemaMetadata h targetRoot,
                  rt_pointerDisplay = [], rt_pointerFragment = None\<rparr>)"
proof -
  from assms have node: "getRefNodeAtPosition h document position = Some keyNode"
    by (simp add: getRefNodeAtPosition_def)
  have uri: "resolveUri h document ''$ref''
      = Some (Uri_file h (resolve h (dirname h (fsPath h (uri document))) ''$ref''))"
    if "\<not> isAbsolute h ''$ref''"
    using that ref_literal by (simp add: resolveUri_def)
  from node assms(6) have res: "resolveReference h document position =
        map_option
          (\<lambda>target. \<lparr>rr_refValue = ''$ref'', rr_sourceRange = rangeOf document keyNode,
                      rr_resolved = target\<rparr>)
          (resolveTargetDocument h document ''$ref'')"
    by (simp add: resolveReference_def ref_literal Let_def split: option.splits)
  have "map_option rr_resolved (resolveReference h document position) =
            Some \<lparr>rt_targetUri =
                    Uri_file h (resolve h (dirname h (fsPath h (uri document))) ''$ref''),
                  rt_targetDocument = loaded,
                  rt_targetRange = rangeOf loaded targetRoot,
                  rt_metadata = extractSchemaMetadata h targetRoot,
                  rt_pointerDisplay = [], rt_pointerFragment = None\<rparr>"
    if "\<not> isAbsolute h ''$ref''"
      and "openTextDocument h
             (Uri_file h (resolve h (dirname h (fsPath h (uri document))) ''$ref'')) = Some loaded"
      and "parseTree h (getText loaded) = Some targetRoot"
    using that uri
    by (simp add: res resolveTargetDocument_def ref_literal findTargetNode_def
        parseJsonPointer_def option.map_comp comp_def Let_def)
  with node uri res show ?thesis
    by (simp add: ref_literal)
qed

theorem resolveReference_on_key_witness:
  "map_option summary (resolveReference workspace docA \<lparr>line = 0, character = 103\<rparr>) =
     Some (''$ref'',
           (\<lparr>line = 0, character = 101\<rparr>, \<lparr>line = 0, character = 107\<rparr>),
           file_Uri ''/work/$ref'',
           (\<lparr>line = 0, character = 0\<rparr>, \<lparr>line = 0, character = 2\<rparr>),
           emptyMetadata, [], None)
   \<and> getRefNodeAtPosition workspace docA \<lparr>line = 0, character = 103\<rparr>
       = Some (Node TString (VString ''$ref'') 101 6 [])
   \<and> openTextDocument workspace (file_Uri ''/work/$ref'') = Some docC"
  using resolveReference_on_key [of workspace docA treeA "\<lparr>line = 0, character = 103\<rparr>"
      "Node TString (VString ''$ref'') 101 6 []"
      "Node TProperty VUndefined 101 25
         [Node TString (VString ''$ref'') 101 6 [],
          Node TString (VString ''b.json#/defs/Foo'') 108 18 []]" docC treeC]
  by (simp add: summary_def lookup_defs workspace_defs locator_defs pointer_defs text_distinct
      treeA_def treeB_def treeC_def nodeFoo_def text_length)

section \<open>Claims about the metadata extractor\<close>

text \<open>
  C7. \<open>extractSchemaMetadata\<close> is the extraction of the specification: the empty
  record unless the node is an object; otherwise each field comes from the last
  direct property child that gives it, the title and the description from a
  property of that name with a string value, the type from a property \<open>type\<close> with
  a string value or with an array that has string elements, joined with a bar
  (an array without string elements gives no type).
  An array or a string node gives the empty record, a title property at the end of
  an object wins over the ones before it, and the object of the specification's
  example gives the title \<open>Foo\<close> and the type \<open>string | null\<close>.
\<close>

theorem extractSchemaMetadata_extracts:
  "extractSchemaMetadata h node = extract_spec h node
   \<and> extractSchemaMetadata h (Node TArray v off len cs) = emptyMetadata
   \<and> extractSchemaMetadata h (Node TString v off len cs) = emptyMetadata
   \<and> extractSchemaMetadata h
        (Node TObject v off len
           [Node TProperty VUndefined koff plen
              [Node TString (VString ''type'') koff klen [],
               Node TArray VUndefined voff vlen [Node TNumber (VNumber x) eoff elen []]]])
       = emptyMetadata
   \<and> title (extractSchemaMetadata h
        (Node TObject v off len
           (cs @ [Node TProperty VUndefined koff plen
                    [Node TString (VString ''title'') koff klen [],
                     Node TString (VString s) voff vlen []]]))) = Some s
   \<and> extractSchemaMetadata h
        (Node TObject VUndefined 0 40
           [Node TProperty VUndefined 1 13
              [Node TString (VString ''title'') 1 7 [], Node TString (VString ''Foo'') 9 5 []],
            Node TProperty VUndefined 15 24
              [Node TString (VString ''type'') 15 6 [],
               Node TArray VUndefined 22 17
                 [Node TString (VString ''string'') 23 8 [],
                  Node TString (VString ''null'') 32 6 []]]])
       = \<lparr>title = Some ''Foo'', description = None, type_m = Some ''string | null''\<rparr>"
proof -
  have "title (extractSchemaMetadata h
        (Node TObject v off len
           (cs @ [Node TProperty VUndefined koff plen
                    [Node TString (VString ''title'') koff klen [],
                     Node TString (VString s) voff vlen []]]))) = Some s"
    by (simp add: extract_refines extract_spec_def map_filter_snoc lastOption_def
        stringProperty_def nth_opt_def)
  moreover have "extractSchemaMetadata h
        (Node TObject VUndefined 0 40
           [Node TProperty VUndefined 1 13
              [Node TString (VString ''title'') 1 7 [], Node TString (VString ''Foo'') 9 5 []],
            Node TProperty VUndefined 15 24
              [Node TString (VString ''type'') 15 6 [],
               Node TArray VUndefined 22 17
                 [Node TString (VString ''string'') 23 8 [],
                  Node TString (VString ''null'') 32 6 []]]])
       = \<lparr>title = Some ''Foo'', description = None, type_m = Some ''string | null''\<rparr>"
    by (simp add: extractSchemaMetadata_def metadataStep_def nth_opt_def emptyMetadata_def)
  moreover have "extractSchemaMetadata h
        (Node TObject v off len
           [Node TProperty VUndefined koff plen
              [Node TString (VString ''type'') koff klen [],
               Node TArray VUndefined voff vlen [Node TNumber (VNumber x) eoff elen []]]])
       = emptyMetadata"
    by (simp add: extractSchemaMetadata_def metadataStep_def nth_opt_def)
  ultimately show ?thesis
    using extract_refines [of h node] by (simp add: extractSchemaMetadata_def)
qed

section \<open>Claims about the scanner\<close>


text \<open>
  C9. A scan in a world whose loader answers as before on every identity that the
  scan of the document asks for, run after a first scan, leaves the diagnostic
  collection as the first scan left it; in particular a second scan in the same
  world changes nothing, and what a scan stores for the document does not depend on
  what the collection held before. The parser, the locator and the document are the
  same in both runs: the findings are a function of the text of the document and of
  the answers of the loader.
\<close>

theorem validateDocument_repeatable:
  assumes "\<forall>u \<in> set (referencedUris h document). load u = openTextDocument h u"
  shows "validateDocument (h\<lparr>openTextDocument := load\<rparr>) document
           (validateDocument h document coll) = validateDocument h document coll
    \<and> validateDocument h document (validateDocument h document coll)
        = validateDocument h document coll
    \<and> validateDocument h document coll (uri document)
        = validateDocument h document coll' (uri document)"
  using scan_spec_load [OF assms] by (simp add: validateDocument_scan)

theorem validateDocument_repeatable_witness:
  "validateDocument
     (workspace\<lparr>openTextDocument :=
        map_of [(file_Uri ''/work/a.json'', docA), (file_Uri ''/work/b.json'', docB)]\<rparr>)
     docA (validateDocument workspace docA Map.empty)
   = validateDocument workspace docA Map.empty"
proof -
  have "\<forall>u \<in> set (referencedUris workspace docA).
          map_of [(file_Uri ''/work/a.json'', docA), (file_Uri ''/work/b.json'', docB)] u
            = openTextDocument workspace u"
    by (simp add: referencedUris_docA) (simp add: workspace_defs)
  from validateDocument_repeatable [OF this] show ?thesis by blast
qed

end
